theory Spec2Isabelle
  imports Complex_Main "HOL-Library.Char_ord" "HOL-Library.List_Lexorder"
begin

section \<open>JavaScript values, strings and errors\<close>

text \<open>
  Values that reach the models from a parsed JSON body or a query string and that are
  bound to the placeholders of a statement. Numbers are exact rationals.
\<close>

datatype jsval = JNull | JBool bool | JNum rat | JStr string

text \<open>
  The exceptions the models can throw, with their messages. The routes give
  \<open>BadRequestError\<close> the list of the validation errors as its message.
\<close>

datatype error =
    BadRequestError string
  | BadRequestErrors "string list"
  | NotFoundError string
  | TypeError string
  | ReferenceError string

text \<open>Decimal rendering of a non-negative integer, as string concatenation does it.\<close>

definition digit_char :: "nat \<Rightarrow> char" where
  "digit_char d = ''0123456789'' ! d"

fun show_nat :: "nat \<Rightarrow> string" where
  "show_nat n = (if n < 10 then [digit_char n] else show_nat (n div 10) @ [digit_char (n mod 10)])"

declare show_nat.simps [simp del]

text \<open>\<open>Array.prototype.join\<close>.\<close>

fun join :: "string \<Rightarrow> string list \<Rightarrow> string" where
  "join sep [] = []"
| "join sep [x] = x"
| "join sep (x # y # ys) = x @ sep @ join sep (y # ys)"

section \<open>helpers/sql.js: sqlForPartialUpdate\<close>

text \<open>
  What a property read \<open>jsToSql[colName]\<close> can yield when the table is an object literal
  with string values: an own string, a built-in method or the prototype object inherited
  from \<open>Object.prototype\<close>, or \<open>undefined\<close>. \<open>truthy\<close> is the test that \<open>||\<close> makes,
  \<open>to_string\<close> the text that \<open>concat\<close> makes of the value (a built-in function prints as
  Node prints it).
\<close>

datatype tableval = TUndefined | TString string | TNativeFunction string | TObject

fun truthy :: "tableval \<Rightarrow> bool" where
  "truthy TUndefined = False"
| "truthy (TString s) = (s \<noteq> [])"
| "truthy (TNativeFunction f) = True"
| "truthy TObject = True"

fun to_string :: "tableval \<Rightarrow> string" where
  "to_string TUndefined = ''undefined''"
| "to_string (TString s) = s"
| "to_string (TNativeFunction f) = ''function '' @ f @ ''() { [native code] }''"
| "to_string TObject = ''[object Object]''"

definition inherited_methods :: "string list" where
  "inherited_methods =
     [''__defineGetter__'', ''__defineSetter__'', ''hasOwnProperty'', ''__lookupGetter__'',
      ''__lookupSetter__'', ''isPrototypeOf'', ''propertyIsEnumerable'', ''toString'',
      ''valueOf'', ''toLocaleString'']"

definition inherited_names :: "string list" where
  "inherited_names = ''constructor'' # ''__proto__'' # inherited_methods"

definition Object_prototype :: "string \<Rightarrow> tableval" where
  "Object_prototype k =
     (if k = ''constructor'' then TNativeFunction ''Object''
      else if k = ''__proto__'' then TObject
      else if k \<in> set inherited_methods then TNativeFunction k
      else TUndefined)"

definition js_get :: "(string \<rightharpoonup> string) \<Rightarrow> string \<Rightarrow> tableval" where
  "js_get jsToSql colName =
     (case jsToSql colName of Some c \<Rightarrow> TString c | None \<Rightarrow> Object_prototype colName)"

text \<open>The column of a key: \<open>jsToSql[colName] || colName\<close>.\<close>

definition column :: "(string \<rightharpoonup> string) \<Rightarrow> string \<Rightarrow> string" where
  "column jsToSql colName =
     (let v = js_get jsToSql colName in if truthy v then to_string v else colName)"

text \<open>
  An update payload is the sequence of its own enumerable properties, in the order in which
  \<open>Object.keys\<close> and \<open>Object.values\<close> both enumerate them.
\<close>

type_synonym payload = "(string \<times> jsval) list"

record fragment =
  setCols :: string
  "values" :: "jsval list"

text \<open>The local \<open>cols\<close>: one clause per key, numbered from \<open>idx + 1\<close>.\<close>

definition cols :: "payload \<Rightarrow> (string \<rightharpoonup> string) \<Rightarrow> string list" where
  "cols dataToUpdate jsToSql =
     map (\<lambda>(idx, colName). ''\"'' @ column jsToSql colName @ ''\"=$'' @ show_nat (idx + 1))
       (List.enumerate 0 (map fst dataToUpdate))"

definition sqlForPartialUpdate :: "payload \<Rightarrow> (string \<rightharpoonup> string) \<Rightarrow> error + fragment" where
  "sqlForPartialUpdate dataToUpdate jsToSql =
     (let keys = map fst dataToUpdate in
      if length keys = 0 then Inl (BadRequestError ''No data'')
      else Inr \<lparr> setCols = join '', '' (cols dataToUpdate jsToSql),
                 values = map snd dataToUpdate \<rparr>)"




section \<open>The persistence engine\<close>

text \<open>
  \<open>db.query\<close> is an external collaborator. For the statements whose text is computed
  (\<open>Company.update\<close>, \<open>Company.findFiltered\<close>, \<open>Job.update\<close>) it is a parameter that
  answers a statement and its bound values with rows, and the model returns, beside its
  result, the list of the statements it issued. For the fixed statements of \<open>Company.get\<close>
  and \<open>Job.findAll\<close> the meaning of the statement is written out over the two tables.
\<close>

type_synonym 'row engine = "string \<Rightarrow> jsval list \<Rightarrow> 'row list"

type_synonym issued = "(string \<times> jsval list) list"

definition newline :: string where
  "newline = [CHR 0x0A]"

definition indent :: "nat \<Rightarrow> string" where
  "indent n = replicate n (CHR '' '')"

record company_row =
  c_handle :: string
  c_name :: string
  c_description :: string
  c_num_employees :: "int option"
  c_logo_url :: "string option"

record job_row =
  j_id :: int
  j_title :: string
  j_salary :: "int option"
  j_equity :: "rat option"
  j_company_handle :: string

record database =
  companies_table :: "company_row list"
  jobs_table :: "job_row list"

section \<open>models/company.js\<close>

subsection \<open>Company.get\<close>

text \<open>The object \<open>json_build_object\<close> makes of the job columns of a joined row.\<close>

record job_object =
  jo_id :: "int option"
  jo_title :: "string option"
  jo_salary :: "int option"
  jo_equity :: "rat option"

record company_with_jobs = company_row +
  jobs :: "job_object list"

text \<open>
  \<open>FROM companies c LEFT JOIN jobs j ON c.handle = j.company_handle\<close>: a company without
  a matching job gives one row whose job columns are all NULL.
\<close>

definition left_join :: "database \<Rightarrow> (company_row \<times> job_row option) list" where
  "left_join db =
     concat (map (\<lambda>c.
       (case filter (\<lambda>j. c_handle c = j_company_handle j) (jobs_table db) of
          [] \<Rightarrow> [(c, None)]
        | ms \<Rightarrow> map (\<lambda>j. (c, Some j)) ms)) (companies_table db))"

fun json_build_object :: "job_row option \<Rightarrow> job_object" where
  "json_build_object None =
     \<lparr> jo_id = None, jo_title = None, jo_salary = None, jo_equity = None \<rparr>"
| "json_build_object (Some j) =
     \<lparr> jo_id = Some (j_id j), jo_title = Some (j_title j),
       jo_salary = j_salary j, jo_equity = j_equity j \<rparr>"

text \<open>
  The statement of \<open>Company.get\<close>: the joined rows with \<open>handle = $1\<close>, grouped by company
  (the handle is the key of the companies), \<open>json_agg\<close> collecting one object per row of
  the group.
\<close>

definition Company_get_query :: "database \<Rightarrow> string \<Rightarrow> company_with_jobs list" where
  "Company_get_query db handle =
     (let rows = filter (\<lambda>(c, j). c_handle c = handle) (left_join db) in
      map (\<lambda>c. \<lparr> c_handle = c_handle c, c_name = c_name c, c_description = c_description c,
                  c_num_employees = c_num_employees c, c_logo_url = c_logo_url c,
                  jobs = map (\<lambda>(c', j). json_build_object j)
                           (filter (\<lambda>(c', j). c' = c) rows) \<rparr>)
        (remdups (map fst rows)))"

definition Company_get :: "database \<Rightarrow> string \<Rightarrow> error + company_with_jobs" where
  "Company_get db handle =
     (case Company_get_query db handle of
        [] \<Rightarrow> Inl (NotFoundError (''No company: '' @ handle))
      | company # _ \<Rightarrow> Inr company)"

subsection \<open>Company.update\<close>

definition Company_update_table :: "string \<rightharpoonup> string" where
  "Company_update_table =
     map_of [(''numEmployees'', ''num_employees''), (''logoUrl'', ''logo_url'')]"

definition Company_update_sql :: "string \<Rightarrow> string \<Rightarrow> string" where
  "Company_update_sql setCols' handleVarIdx =
     join newline
       [''UPDATE companies'',
        indent 22 @ ''SET '' @ setCols',
        indent 22 @ ''WHERE handle = '' @ handleVarIdx,
        indent 22 @ ''RETURNING handle,'',
        indent 32 @ ''name,'',
        indent 32 @ ''description,'',
        indent 32 @ ''num_employees AS \"numEmployees\",'',
        indent 32 @ ''logo_url AS \"logoUrl\"'']"

definition Company_update ::
  "'row engine \<Rightarrow> string \<Rightarrow> payload \<Rightarrow> (error + 'row) \<times> issued" where
  "Company_update query handle data =
     (case sqlForPartialUpdate data Company_update_table of
        Inl e \<Rightarrow> (Inl e, [])
      | Inr frag \<Rightarrow>
          (let handleVarIdx = ''$'' @ show_nat (length (values frag) + 1);
               querySql = Company_update_sql (setCols frag) handleVarIdx;
               params = values frag @ [JStr handle];
               result = query querySql params
           in (case result of
                 [] \<Rightarrow> Inl (NotFoundError (''No company: '' @ handle))
               | company # _ \<Rightarrow> Inr company,
               [(querySql, params)])))"

subsection \<open>Company.findFiltered\<close>

record company_filters =
  name :: "string option"
  minEmployees :: "rat option"
  maxEmployees :: "rat option"

text \<open>
  The two arrays after the three conditional pushes. \<open>if (name)\<close> is a truthiness test: an
  absent name and the empty string both skip the clause.
\<close>

definition push_name ::
  "company_filters \<Rightarrow> string list \<times> jsval list \<Rightarrow> string list \<times> jsval list" where
  "push_name filters st =
     (case st of (whereClauses, queryParams) \<Rightarrow>
        (case name filters of
           None \<Rightarrow> st
         | Some n \<Rightarrow>
             if n = [] then st
             else (let queryParams' = queryParams @ [JStr (''%'' @ n @ ''%'')] in
                   (whereClauses @ [''name ILIKE $'' @ show_nat (length queryParams')],
                    queryParams'))))"

definition push_minEmployees ::
  "company_filters \<Rightarrow> string list \<times> jsval list \<Rightarrow> string list \<times> jsval list" where
  "push_minEmployees filters st =
     (case st of (whereClauses, queryParams) \<Rightarrow>
        (case minEmployees filters of
           None \<Rightarrow> st
         | Some m \<Rightarrow>
             (let queryParams' = queryParams @ [JNum m] in
              (whereClauses @ [''num_employees >= $'' @ show_nat (length queryParams')],
               queryParams'))))"

definition push_maxEmployees ::
  "company_filters \<Rightarrow> string list \<times> jsval list \<Rightarrow> string list \<times> jsval list" where
  "push_maxEmployees filters st =
     (case st of (whereClauses, queryParams) \<Rightarrow>
        (case maxEmployees filters of
           None \<Rightarrow> st
         | Some m \<Rightarrow>
             (let queryParams' = queryParams @ [JNum m] in
              (whereClauses @ [''num_employees <= $'' @ show_nat (length queryParams')],
               queryParams'))))"

definition filter_clauses :: "company_filters \<Rightarrow> string list \<times> jsval list" where
  "filter_clauses filters =
     push_maxEmployees filters (push_minEmployees filters (push_name filters ([], [])))"

definition whereClause :: "string list \<Rightarrow> string" where
  "whereClause whereClauses =
     (if length whereClauses > 0 then ''WHERE'' @ join '' AND '' whereClauses else [])"

definition Company_findFiltered_sql :: "string \<Rightarrow> string" where
  "Company_findFiltered_sql wc =
     join newline
       [''SELECT handle, name, description, num_employees AS \"numEmployees\", logo_url AS \"logoUrl\"'',
        indent 6 @ ''FROM companies'',
        indent 6 @ wc,
        indent 6 @ ''ORDER BY name'']"

definition range_invalid :: "company_filters \<Rightarrow> bool" where
  "range_invalid filters =
     (case (minEmployees filters, maxEmployees filters) of
        (Some mn, Some mx) \<Rightarrow> mn > mx
      | _ \<Rightarrow> False)"

definition Company_findFiltered ::
  "'row engine \<Rightarrow> company_filters \<Rightarrow> (error + 'row list) \<times> issued" where
  "Company_findFiltered query filters =
     (if range_invalid filters
      then (Inl (BadRequestError ''minEmployees cannot be greater than maxEmployees''), [])
      else (case filter_clauses filters of (whereClauses, queryParams) \<Rightarrow>
              (let sql = Company_findFiltered_sql (whereClause whereClauses) in
               (Inr (query sql queryParams), [(sql, queryParams)]))))"

text \<open>The words of a statement: its maximal runs of characters other than blanks and newlines.\<close>

fun sql_words_from :: "string \<Rightarrow> string \<Rightarrow> string list" where
  "sql_words_from w [] = (if w = [] then [] else [w])"
| "sql_words_from w (c # cs) =
     (if c = CHR '' '' \<or> c = CHR 0x0A
      then (if w = [] then sql_words_from [] cs else w # sql_words_from [] cs)
      else sql_words_from (w @ [c]) cs)"

definition sql_words :: "string \<Rightarrow> string list" where
  "sql_words s = sql_words_from [] s"

section \<open>models/job.js\<close>

text \<open>
  What a module-level name is bound to. \<open>helpers/sql.js\<close> exports an object with one
  member; \<open>models/company.js\<close> destructures the member out of it, \<open>models/job.js\<close> binds
  the name \<open>sqlForPartialUpdate\<close> to the exported object itself.
\<close>

datatype js_binding =
    JsFunction "payload \<Rightarrow> (string \<rightharpoonup> string) \<Rightarrow> error + fragment"
  | JsObject "(string \<times> js_binding) list"

definition helpers_sql_exports :: js_binding where
  "helpers_sql_exports = JsObject [(''sqlForPartialUpdate'', JsFunction sqlForPartialUpdate)]"

definition job_sqlForPartialUpdate :: js_binding where
  "job_sqlForPartialUpdate = helpers_sql_exports"

text \<open>Calling a name: only a function can be called.\<close>

fun js_call ::
  "string \<Rightarrow> js_binding \<Rightarrow> payload \<Rightarrow> (string \<rightharpoonup> string) \<Rightarrow> error + fragment" where
  "js_call ident (JsFunction f) d t = f d t"
| "js_call ident (JsObject members) d t = Inl (TypeError (ident @ '' is not a function''))"

definition Job_update_table :: "string \<rightharpoonup> string" where
  "Job_update_table =
     map_of [(''title'', ''title''), (''salary'', ''salary''), (''equity'', ''equity'')]"

definition Job_update_sql :: "string \<Rightarrow> string \<Rightarrow> string" where
  "Job_update_sql setCols' idVarIdx =
     join newline
       [''UPDATE jobs'',
        indent 20 @ ''SET '' @ setCols',
        indent 20 @ ''WHERE id = '' @ idVarIdx,
        indent 20 @ ''RETURNING id,'',
        indent 30 @ ''title,'',
        indent 30 @ ''salary,'',
        indent 30 @ ''equity,'',
        indent 30 @ ''company_handle AS \"companyHandle\"'']"

text \<open>
  \<open>Job.update\<close>. The statement is bound to \<open>querySQL\<close> and the call of \<open>db.query\<close> reads
  \<open>querySql\<close>, a name that is declared nowhere: evaluating the argument throws before the
  engine is called.
\<close>

definition Job_update ::
  "'row engine \<Rightarrow> jsval \<Rightarrow> payload \<Rightarrow> (error + 'row) \<times> issued" where
  "Job_update query ident data =
     (case js_call ''sqlForPartialUpdate'' job_sqlForPartialUpdate data Job_update_table of
        Inl e \<Rightarrow> (Inl e, [])
      | Inr frag \<Rightarrow>
          (let idVarIdx = ''$'' @ show_nat (length (values frag) + 1);
               querySQL = Job_update_sql (setCols frag) idVarIdx
           in (Inl (ReferenceError ''querySql is not defined''), [])))"

text \<open>
  \<open>Job.findAll\<close>: every row of the jobs, ordered by title (a stable sort under the
  byte-wise order of strings). It takes no filter.
\<close>

definition Job_findAll :: "database \<Rightarrow> job_row list" where
  "Job_findAll db = sort_key j_title (jobs_table db)"

section \<open>routes/jobs.js: GET /\<close>

text \<open>
  The query string as an object: its values are strings on arrival; the handler replaces
  \<open>minSalary\<close> by a number and \<open>hasEquity\<close> by a boolean. The numeric conversion (unary
  plus) and the validation against the search schema are parameters; the validation
  gives the list of its error texts, empty when the query is valid.
\<close>

datatype qval = QString string | QNumber rat | QNaN | QBool bool

datatype 'a response = Json 'a | Next error

definition jobs_get ::
  "(qval \<Rightarrow> qval) \<Rightarrow> ((string \<rightharpoonup> qval) \<Rightarrow> string list) \<Rightarrow> database \<Rightarrow>
   (string \<rightharpoonup> qval) \<Rightarrow> (job_row list) response" where
  "jobs_get unary_plus validate db query =
     (let query1 = (case query ''minSalary'' of
                      None \<Rightarrow> query
                    | Some v \<Rightarrow> query(''minSalary'' \<mapsto> unary_plus v));
          query2 = (case query1 ''hasEquity'' of
                      None \<Rightarrow> query1
                    | Some v \<Rightarrow> query1(''hasEquity'' \<mapsto> QBool (v = QString ''true'')));
          errors = validate query2
      in if errors \<noteq> [] then Next (BadRequestErrors errors)
         else Json (Job_findAll db))"

section \<open>Lemmas on clauses and placeholders\<close>






lemma cols_length: "length (cols P T) = length P"
  by (simp add: cols_def)

lemma cols_nth:
  assumes "i < length P"
  shows "cols P T ! i = ''\"'' @ column T (fst (P ! i)) @ ''\"=$'' @ show_nat (i + 1)"
  using assms by (simp add: cols_def nth_enumerate_eq)


lemma Object_prototype_undefined:
  "k \<notin> set inherited_names \<Longrightarrow> Object_prototype k = TUndefined"
  by (simp add: inherited_names_def Object_prototype_def)

lemma column_own:
  "T k = Some c \<Longrightarrow> column T k = (if c = [] then k else c)"
  by (simp add: column_def js_get_def)

lemma column_absent:
  "T k = None \<Longrightarrow> k \<notin> set inherited_names \<Longrightarrow> column T k = k"
  by (simp add: column_def js_get_def Object_prototype_undefined)

lemma sqlForPartialUpdate_Inr:
  "P \<noteq> [] \<Longrightarrow>
   sqlForPartialUpdate P T = Inr \<lparr> setCols = join '', '' (cols P T), values = map snd P \<rparr>"
  by (simp add: sqlForPartialUpdate_def)

section \<open>The partial-update fragment builder\<close>



text \<open>
  C6. For every table the builder answers the empty payload with the error
  \<open>BadRequestError("No data")\<close> (the code's name for the empty-payload error) and
  produces no fragment; \<open>Company.update\<close> passes the error on and issues no statement.
\<close>

theorem sqlForPartialUpdate_empty_payload:
  "sqlForPartialUpdate [] T = Inl (BadRequestError ''No data'')
   \<and> Company_update query handle [] = (Inl (BadRequestError ''No data''), [])"
  by (simp add: sqlForPartialUpdate_def Company_update_def)

text \<open>
  C7, as stated, fails: a key that the table maps to the empty string is emitted under
  its own name, not under the table's entry, and a key absent from the table that names
  a property inherited from \<open>Object.prototype\<close> is emitted as the text of the inherited
  value.
\<close>

theorem column_name_counterexample:
  "map_of [(''a'', [])] ''a'' = Some []
   \<and> cols [(''a'', JNum 1)] (map_of [(''a'', [])]) = [''\"a\"=$1'']
   \<and> (Map.empty :: string \<rightharpoonup> string) ''constructor'' = None
   \<and> cols [(''constructor'', JNum 1)] Map.empty
        = [''\"function Object() { [native code] }\"=$1'']"
  by (simp add: cols_def column_def js_get_def Object_prototype_def show_nat.simps digit_char_def)

text \<open>
  C7, amended. For the \<open>i\<close>-th key \<open>k\<close> of the payload: if the table maps \<open>k\<close> to a
  non-empty column name, the clause names that column; if the table maps \<open>k\<close> to the
  empty string, or has no entry for \<open>k\<close> and \<open>k\<close> is not the name of a property
  inherited from \<open>Object.prototype\<close>, the clause names \<open>k\<close> itself.
\<close>

theorem column_name_translated_or_verbatim:
  assumes "i < length P" and "k = fst (P ! i)"
  shows "(\<forall>c. T k = Some c \<and> c \<noteq> [] \<longrightarrow>
            cols P T ! i = ''\"'' @ c @ ''\"=$'' @ show_nat (i + 1))
       \<and> (T k = Some [] \<or> (T k = None \<and> k \<notin> set inherited_names) \<longrightarrow>
            cols P T ! i = ''\"'' @ k @ ''\"=$'' @ show_nat (i + 1))"
  using assms by (auto simp: cols_nth column_own column_absent)

theorem column_name_translated_or_verbatim_witness:
  "cols [(''firstName'', JStr ''John''), (''lastName'', JStr ''Doe'')]
        (map_of [(''firstName'', ''first_name'')]) ! 0 = ''\"first_name\"=$1''
   \<and> cols [(''firstName'', JStr ''John''), (''lastName'', JStr ''Doe'')]
        (map_of [(''firstName'', ''first_name'')]) ! 1 = ''\"lastName\"=$2''"
proof -
  let ?P = "[(''firstName'', JStr ''John''), (''lastName'', JStr ''Doe'')]"
  let ?T = "map_of [(''firstName'', ''first_name'')]"
  have n: "''lastName'' \<notin> set inherited_names"
    by (simp add: inherited_names_def inherited_methods_def)
  have s: "show_nat (0 + 1) = ''1''" "show_nat (1 + 1) = ''2''"
    by (simp_all add: show_nat.simps digit_char_def)
  have "cols ?P ?T ! 0 = ''\"'' @ ''first_name'' @ ''\"=$'' @ show_nat (0 + 1)"
    using column_name_translated_or_verbatim [of 0 ?P "''firstName''" ?T] by simp
  moreover have "cols ?P ?T ! 1 = ''\"'' @ ''lastName'' @ ''\"=$'' @ show_nat (1 + 1)"
    using column_name_translated_or_verbatim [of 1 ?P "''lastName''" ?T] n by simp
  ultimately show ?thesis using s by simp
qed

section \<open>Company.update\<close>

text \<open>
  \<open>Company.update\<close> rejects no key of a non-empty payload: it issues one statement whose
  SET list has one clause per key and whose values are the payload's values followed by
  the handle. Off the names that the table inherits from \<open>Object.prototype\<close> a key is
  emitted verbatim, except \<open>numEmployees\<close> and \<open>logoUrl\<close>, which are renamed.
\<close>

lemma Company_update_clauses:
  assumes "data \<noteq> []"
  shows "snd (Company_update query handle data)
           = [(Company_update_sql (join '', '' (cols data Company_update_table))
                 (''$'' @ show_nat (length data + 1)),
               map snd data @ [JStr handle])]
       \<and> length (cols data Company_update_table) = length data
       \<and> (\<forall>i<length data. fst (data ! i) \<notin> set inherited_names \<longrightarrow>
             cols data Company_update_table ! i
               = ''\"'' @ (if fst (data ! i) = ''numEmployees'' then ''num_employees''
                          else if fst (data ! i) = ''logoUrl'' then ''logo_url''
                          else fst (data ! i))
                 @ ''\"=$'' @ show_nat (i + 1))"
proof -
  have col: "column Company_update_table k
               = (if k = ''numEmployees'' then ''num_employees''
                  else if k = ''logoUrl'' then ''logo_url'' else k)"
    if "k \<notin> set inherited_names" for k
    using that
    by (simp add: column_def js_get_def Company_update_table_def Object_prototype_undefined)
  have "snd (Company_update query handle data)
          = [(Company_update_sql (join '', '' (cols data Company_update_table))
                (''$'' @ show_nat (length data + 1)),
              map snd data @ [JStr handle])]"
    using assms by (simp add: Company_update_def sqlForPartialUpdate_Inr Let_def)
  then show ?thesis
    by (simp add: cols_length cols_nth col)
qed

lemma Company_update_clauses_handle:
  "snd (Company_update (\<lambda>s p. ([] :: unit list)) ''acme'' [(''handle'', JStr ''x'')])
       = [(Company_update_sql ''\"handle\"=$1'' ''$2'', [JStr ''x'', JStr ''acme''])]"
proof -
  let ?data = "[(''handle'', JStr ''x'')]"
  have ne: "?data \<noteq> []" by simp
  have n: "''handle'' \<notin> set inherited_names"
    by (simp add: inherited_names_def inherited_methods_def)
  have s: "show_nat (0 + 1) = ''1''" "show_nat (length ?data + 1) = ''2''"
    by (simp_all add: show_nat.simps digit_char_def)
  note t = Company_update_clauses [OF ne, of "\<lambda>s p. ([] :: unit list)" "''acme''"]
  from t have c0: "cols ?data Company_update_table ! 0
                     = ''\"'' @ ''handle'' @ ''\"=$'' @ show_nat (0 + 1)"
    using n by simp
  have "length (cols ?data Company_update_table) = 1" by (simp add: cols_length)
  then have "cols ?data Company_update_table = [cols ?data Company_update_table ! 0]"
    by (cases "cols ?data Company_update_table") simp_all
  then have "join '', '' (cols ?data Company_update_table) = ''\"handle\"=$1''"
    using c0 s by simp
  moreover from t have "snd (Company_update (\<lambda>s p. ([] :: unit list)) ''acme'' ?data)
       = [(Company_update_sql (join '', '' (cols ?data Company_update_table))
             (''$'' @ show_nat (length ?data + 1)),
           map snd ?data @ [JStr ''acme''])]"
    by blast
  ultimately show ?thesis using s by simp
qed

text \<open>
  C10, on the code. The claim holds for the key \<open>handle\<close> and for every key that names no
  property inherited from \<open>Object.prototype\<close>, and it fails at the others: the table of
  \<open>Company.update\<close> has no entry \<open>constructor\<close>, yet the payload key \<open>constructor\<close> is not
  emitted verbatim as \<open>"constructor"=$1\<close>; the read \<open>jsToSql[colName]\<close> finds the inherited
  function, and the statement issued sets a column named by the text of that function.
\<close>

theorem Company_update_inherited_key:
  "cols [(''constructor'', JNum 1)] Company_update_table
     = [''\"function Object() { [native code] }\"=$1'']
   \<and> cols [(''constructor'', JNum 1)] Company_update_table \<noteq> [''\"constructor\"=$1'']
   \<and> snd (Company_update (\<lambda>s p. ([] :: unit list)) ''acme'' [(''constructor'', JNum 1)])
     = [(Company_update_sql ''\"function Object() { [native code] }\"=$1'' ''$2'',
         [JNum 1, JStr ''acme''])]"
  by (simp add: Company_update_def sqlForPartialUpdate_def cols_def column_def js_get_def
      Company_update_table_def Object_prototype_def show_nat.simps digit_char_def)

section \<open>Company.findFiltered\<close>

text \<open>
  C8. When both bounds are present and the minimum exceeds the maximum,
  \<open>Company.findFiltered\<close> fails with \<open>BadRequestError\<close> (the code's name for the
  invalid-range error) and has issued no statement; no clause is built on that path.
\<close>

theorem Company_findFiltered_invalid_range:
  assumes "minEmployees filters = Some mn" and "maxEmployees filters = Some mx" and "mn > mx"
  shows "Company_findFiltered query filters
           = (Inl (BadRequestError ''minEmployees cannot be greater than maxEmployees''), [])"
  using assms by (simp add: Company_findFiltered_def range_invalid_def)

theorem Company_findFiltered_invalid_range_witness:
  "(10 :: rat) > 5
   \<and> Company_findFiltered (\<lambda>s p. ([] :: unit list))
        \<lparr> name = None, minEmployees = Some 10, maxEmployees = Some 5 \<rparr>
       = (Inl (BadRequestError ''minEmployees cannot be greater than maxEmployees''), [])"
  using Company_findFiltered_invalid_range
    [of "\<lparr> name = None, minEmployees = Some 10, maxEmployees = Some 5 \<rparr>" 10 5
        "\<lambda>s p. ([] :: unit list)"]
  by simp

text \<open>
  C9, on the code. A filter with a non-empty name and no bounds builds exactly one
  clause, \<open>name ILIKE $1\<close> (the case-insensitive match), and binds exactly one value, the
  name between two \<open>%\<close> (\<open>%ab%\<close> for the name \<open>ab\<close>). The one statement that is issued
  with that value, however, reads \<open>WHEREname ILIKE $1\<close> after \<open>FROM companies\<close>: the
  keyword is joined to the clause without a blank, the statement has no word \<open>WHERE\<close>,
  and the result of the search is whatever the engine answers to that text.
\<close>

theorem Company_findFiltered_name_statement:
  assumes "n \<noteq> []"
  shows "filter_clauses \<lparr> name = Some n, minEmployees = None, maxEmployees = None \<rparr>
           = ([''name ILIKE $1''], [JStr (''%'' @ n @ ''%'')])
       \<and> Company_findFiltered query
            \<lparr> name = Some n, minEmployees = None, maxEmployees = None \<rparr>
           = (Inr (query (Company_findFiltered_sql ''WHEREname ILIKE $1'')
                     [JStr (''%'' @ n @ ''%'')]),
              [(Company_findFiltered_sql ''WHEREname ILIKE $1'', [JStr (''%'' @ n @ ''%'')])])
       \<and> Company_findFiltered_sql ''WHEREname ILIKE $1''
           = join newline
               [''SELECT handle, name, description, num_employees AS \"numEmployees\", logo_url AS \"logoUrl\"'',
                ''      FROM companies'',
                ''      WHEREname ILIKE $1'',
                ''      ORDER BY name'']
       \<and> ''WHERE'' \<notin> set (sql_words (Company_findFiltered_sql ''WHEREname ILIKE $1''))
       \<and> ''WHEREname'' \<in> set (sql_words (Company_findFiltered_sql ''WHEREname ILIKE $1''))"
proof -
  have s: "show_nat (Suc 0) = ''1''"
    by (simp add: show_nat.simps digit_char_def)
  have f: "filter_clauses \<lparr> name = Some n, minEmployees = None, maxEmployees = None \<rparr>
             = ([''name ILIKE $1''], [JStr (''%'' @ n @ ''%'')])"
    using assms
    by (simp add: filter_clauses_def push_name_def push_minEmployees_def
        push_maxEmployees_def s)
  have w: "whereClause [''name ILIKE $1''] = ''WHEREname ILIKE $1''"
    by (simp add: whereClause_def)
  have r: "Company_findFiltered query
            \<lparr> name = Some n, minEmployees = None, maxEmployees = None \<rparr>
           = (Inr (query (Company_findFiltered_sql ''WHEREname ILIKE $1'')
                     [JStr (''%'' @ n @ ''%'')]),
              [(Company_findFiltered_sql ''WHEREname ILIKE $1'', [JStr (''%'' @ n @ ''%'')])])"
    using f by (simp add: Company_findFiltered_def range_invalid_def Let_def w)
  have t: "Company_findFiltered_sql ''WHEREname ILIKE $1''
           = join newline
               [''SELECT handle, name, description, num_employees AS \"numEmployees\", logo_url AS \"logoUrl\"'',
                ''      FROM companies'',
                ''      WHEREname ILIKE $1'',
                ''      ORDER BY name'']"
    by (simp add: Company_findFiltered_sql_def indent_def numeral_eq_Suc)
  have ws: "sql_words (Company_findFiltered_sql ''WHEREname ILIKE $1'')
       = [''SELECT'', ''handle,'', ''name,'', ''description,'', ''num_employees'', ''AS'',
          ''\"numEmployees\",'', ''logo_url'', ''AS'', ''\"logoUrl\"'', ''FROM'', ''companies'',
          ''WHEREname'', ''ILIKE'', ''$1'', ''ORDER'', ''BY'', ''name'']"
    by (simp add: Company_findFiltered_sql_def newline_def indent_def sql_words_def
        numeral_eq_Suc)
  have "''WHERE'' \<notin> set (sql_words (Company_findFiltered_sql ''WHEREname ILIKE $1''))"
    unfolding ws by simp
  moreover have "''WHEREname'' \<in> set (sql_words (Company_findFiltered_sql ''WHEREname ILIKE $1''))"
    unfolding ws by simp
  ultimately show ?thesis using f r t by blast
qed

theorem Company_findFiltered_name_statement_witness:
  "''ab'' \<noteq> []
   \<and> filter_clauses \<lparr> name = Some ''ab'', minEmployees = None, maxEmployees = None \<rparr>
       = ([''name ILIKE $1''], [JStr ''%ab%''])
   \<and> Company_findFiltered (\<lambda>s p. ([] :: unit list))
        \<lparr> name = Some ''ab'', minEmployees = None, maxEmployees = None \<rparr>
       = (Inr [], [(Company_findFiltered_sql ''WHEREname ILIKE $1'', [JStr ''%ab%''])])
   \<and> ''WHERE'' \<notin> set (sql_words (Company_findFiltered_sql ''WHEREname ILIKE $1''))"
proof -
  have ne: "''ab'' \<noteq> []" by simp
  note t = Company_findFiltered_name_statement [OF ne, of "\<lambda>s p. ([] :: unit list)"]
  from t have "filter_clauses \<lparr> name = Some ''ab'', minEmployees = None, maxEmployees = None \<rparr>
       = ([''name ILIKE $1''], [JStr ''%ab%''])" by simp
  moreover from t have "Company_findFiltered (\<lambda>s p. ([] :: unit list))
        \<lparr> name = Some ''ab'', minEmployees = None, maxEmployees = None \<rparr>
       = (Inr [], [(Company_findFiltered_sql ''WHEREname ILIKE $1'', [JStr ''%ab%''])])" by simp
  moreover from t
  have "''WHERE'' \<notin> set (sql_words (Company_findFiltered_sql ''WHEREname ILIKE $1''))"
    by blast
  ultimately show ?thesis using ne by blast
qed

text \<open>
  C4, on the code. Without a predicate the where-clause and the value list are empty.
  With the name \<open>ab\<close> the where-clause is \<open>WHEREname ILIKE $1\<close>: the keyword and the first
  clause are joined without a blank, so the statement that is issued has the word
  \<open>WHEREname\<close> and no word \<open>WHERE\<close>.
\<close>

theorem Company_findFiltered_where_glued:
  "filter_clauses \<lparr> name = None, minEmployees = None, maxEmployees = None \<rparr> = ([], [])
   \<and> whereClause [] = []
   \<and> whereClause (fst (filter_clauses
        \<lparr> name = Some ''ab'', minEmployees = None, maxEmployees = None \<rparr>))
       = ''WHEREname ILIKE $1''
   \<and> snd (Company_findFiltered (\<lambda>s p. ([] :: unit list))
        \<lparr> name = Some ''ab'', minEmployees = None, maxEmployees = None \<rparr>)
       = [(join newline
             [''SELECT handle, name, description, num_employees AS \"numEmployees\", logo_url AS \"logoUrl\"'',
              ''      FROM companies'',
              ''      WHEREname ILIKE $1'',
              ''      ORDER BY name''],
           [JStr ''%ab%''])]
   \<and> sql_words (fst (hd (snd (Company_findFiltered (\<lambda>s p. ([] :: unit list))
        \<lparr> name = Some ''ab'', minEmployees = None, maxEmployees = None \<rparr>))))
       = [''SELECT'', ''handle,'', ''name,'', ''description,'', ''num_employees'', ''AS'',
          ''\"numEmployees\",'', ''logo_url'', ''AS'', ''\"logoUrl\"'', ''FROM'', ''companies'',
          ''WHEREname'', ''ILIKE'', ''$1'', ''ORDER'', ''BY'', ''name'']"
  by (simp add: filter_clauses_def push_name_def push_minEmployees_def push_maxEmployees_def
      whereClause_def Company_findFiltered_def range_invalid_def Company_findFiltered_sql_def
      newline_def indent_def sql_words_def show_nat.simps digit_char_def numeral_eq_Suc)

section \<open>Company.get\<close>

text \<open>
  C5, on the code. For a company without jobs the left join gives one row with NULL job
  columns and \<open>json_agg\<close> collects it: \<open>jobs\<close> is a list of one object whose fields are
  all null, not the empty list. With one job of that company \<open>jobs\<close> has exactly one
  entry, that job.
\<close>

theorem Company_get_no_jobs_placeholder:
  "Company_get
     \<lparr> companies_table =
         [\<lparr> c_handle = ''acme'', c_name = ''Acme'', c_description = ''Anvils'',
            c_num_employees = Some 5, c_logo_url = None \<rparr>],
       jobs_table = [] \<rparr> ''acme''
     = Inr \<lparr> c_handle = ''acme'', c_name = ''Acme'', c_description = ''Anvils'',
             c_num_employees = Some 5, c_logo_url = None,
             jobs = [\<lparr> jo_id = None, jo_title = None, jo_salary = None, jo_equity = None \<rparr>] \<rparr>
   \<and> Company_get
     \<lparr> companies_table =
         [\<lparr> c_handle = ''acme'', c_name = ''Acme'', c_description = ''Anvils'',
            c_num_employees = Some 5, c_logo_url = None \<rparr>],
       jobs_table =
         [\<lparr> j_id = 1, j_title = ''Engineer'', j_salary = Some 100, j_equity = None,
            j_company_handle = ''acme'' \<rparr>] \<rparr> ''acme''
     = Inr \<lparr> c_handle = ''acme'', c_name = ''Acme'', c_description = ''Anvils'',
             c_num_employees = Some 5, c_logo_url = None,
             jobs = [\<lparr> jo_id = Some 1, jo_title = Some ''Engineer'', jo_salary = Some 100,
                       jo_equity = None \<rparr>] \<rparr>"
  by (simp add: Company_get_def Company_get_query_def left_join_def)

section \<open>Jobs\<close>

text \<open>
  C3, on the code. \<open>Job.update\<close> never reaches the builder: the name it calls is bound
  to the exported object, not to the function, so every call fails with a
  \<open>TypeError\<close>, whatever the id and the payload, and no statement is issued.
\<close>

theorem Job_update_always_TypeError:
  "Job_update query ident data
     = (Inl (TypeError ''sqlForPartialUpdate is not a function''), [])"
  by (simp add: Job_update_def job_sqlForPartialUpdate_def helpers_sql_exports_def)

text \<open>
  C2, on the code. The handler of \<open>GET /jobs\<close> converts and validates the query and then
  calls \<open>Job.findAll\<close> without it: with \<open>hasEquity=true\<close> it answers with every job,
  also those whose equity is zero or null.
\<close>

theorem jobs_get_ignores_hasEquity:
  "jobs_get (\<lambda>v. QNaN) (\<lambda>q. [])
     \<lparr> companies_table = [],
       jobs_table =
         [\<lparr> j_id = 1, j_title = ''c'', j_salary = Some 100, j_equity = Some 0,
            j_company_handle = ''acme'' \<rparr>,
          \<lparr> j_id = 2, j_title = ''a'', j_salary = None, j_equity = None,
            j_company_handle = ''acme'' \<rparr>,
          \<lparr> j_id = 3, j_title = ''b'', j_salary = Some 200, j_equity = Some (1 / 2),
            j_company_handle = ''acme'' \<rparr>] \<rparr>
     [''hasEquity'' \<mapsto> QString ''true'']
   = Json
       [\<lparr> j_id = 2, j_title = ''a'', j_salary = None, j_equity = None,
          j_company_handle = ''acme'' \<rparr>,
        \<lparr> j_id = 3, j_title = ''b'', j_salary = Some 200, j_equity = Some (1 / 2),
          j_company_handle = ''acme'' \<rparr>,
        \<lparr> j_id = 1, j_title = ''c'', j_salary = Some 100, j_equity = Some 0,
          j_company_handle = ''acme'' \<rparr>]"
  by (simp add: jobs_get_def Job_findAll_def)

end
